theory Spec2Isabelle
  imports Complex_Main
begin

section \<open>The micro-batch loop of \<open>train_step\<close> (src/train.py, lines 32-59)\<close>

text \<open>
  \<open>train_step(model, data_loader, device)\<close> runs \<open>data_loader.grad_acc\<close> micro-batches and
  returns the accumulated loss. Everything it calls is a collaborator that lives outside
  train.py: the data loader, \<open>parallel_input\<close>, the model, \<open>F.cross_entropy\<close>, autograd.
  They are the fields of a record of functions; a call that raises is \<open>None\<close>, and the
  exception then leaves \<open>train_step\<close> (the source has no \<open>try\<close>).

  The Python objects the function mutates are the fields of the state: the loader's
  position, the model, and the model's attribute \<open>require_backward_grad_sync\<close>
  (\<open>None\<close> while the attribute has not been assigned). The field \<open>trace\<close> is a ghost
  log of the statements that were executed, in program order.
\<close>

datatype 't event =
    NextBatch
  | SetGradSync bool
  | Forward "bool option"
  | CrossEntropy 't
  | DivGradAcc int
  | Backward "bool option"

record ('d, 'm, 't) state =
  loader :: 'd
  grad_acc :: int
  model :: 'm
  require_backward_grad_sync :: "bool option"
  trace :: "'t event list"

record ('d, 'b, 'm, 'o, 't, 'f) collaborators =
  cp_dp_world_size :: int
  next_batch :: "'d \<Rightarrow> ('b \<times> 'd) option"
  forward :: "'m \<Rightarrow> bool option \<Rightarrow> 'b \<Rightarrow> ('o \<times> 'm) option"
  cross_entropy :: "'o \<Rightarrow> 'b \<Rightarrow> 't option"
  tensor_div :: "'t \<Rightarrow> int \<Rightarrow> 't"
  backward :: "'m \<Rightarrow> bool option \<Rightarrow> 't \<Rightarrow> 'm option"
  item :: "'t \<Rightarrow> 'f"

text \<open>
  \<open>next_batch\<close> stands for lines 38-41 (\<open>next(data_loader)\<close>, the two look-ups, the
  copies to the device and \<open>parallel_input\<close>): it yields the pair of input and target
  ids and the loader's new position. \<open>cross_entropy\<close> stands for lines 50-53 up to the
  division (the shape unpacking, \<open>reshape\<close>, \<open>view\<close> and \<open>F.cross_entropy\<close> with
  \<open>reduction='mean'\<close>). \<open>tensor_div\<close> is the division of a tensor by a Python int, which
  never raises (dividing a tensor by 0 gives inf or nan). \<open>item\<close> is \<open>loss.item()\<close>.
  The type \<open>'f\<close> is Python's float with its own \<open>0.0\<close> and \<open>+\<close>; nothing is assumed
  about them.
\<close>

text \<open>\<open>range(n)\<close> for a Python int \<open>n\<close>: empty when \<open>n \<le> 0\<close>.\<close>

definition py_range :: "int \<Rightarrow> int list" where
  "py_range n = map int [0..<nat n]"

text \<open>The body of the \<open>for\<close> loop, lines 37-57, for the index \<open>i\<close>.\<close>

definition micro_batch ::
  "('d, 'b, 'm, 'o, 't, 'f) collaborators \<Rightarrow> bool \<Rightarrow> int \<Rightarrow>
   'f::plus \<times> ('d, 'm, 't) state \<Rightarrow> ('f \<times> ('d, 'm, 't) state) option" where
  "micro_batch env requires_grad_sync i p =
    (case p of (acc_loss, s) \<Rightarrow>
     (case next_batch env (loader s) of
        None \<Rightarrow> None
      | Some (batch, d') \<Rightarrow>
          let s1 = s\<lparr>loader := d', trace := trace s @ [NextBatch]\<rparr>;
              s2 = (if requires_grad_sync
                    then s1\<lparr>require_backward_grad_sync := Some (i = grad_acc s1 - 1),
                            trace := trace s1 @ [SetGradSync (i = grad_acc s1 - 1)]\<rparr>
                    else s1)
          in (case forward env (model s2) (require_backward_grad_sync s2) batch of
                None \<Rightarrow> None
              | Some (outputs, m') \<Rightarrow>
                  let s3 = s2\<lparr>model := m',
                              trace := trace s2 @ [Forward (require_backward_grad_sync s2)]\<rparr>
                  in (case cross_entropy env outputs batch of
                        None \<Rightarrow> None
                      | Some ce \<Rightarrow>
                          let loss = tensor_div env ce (grad_acc s3);
                              s4 = s3\<lparr>trace := trace s3 @ [CrossEntropy ce, DivGradAcc (grad_acc s3)]\<rparr>
                          in (case backward env (model s4) (require_backward_grad_sync s4) loss of
                                None \<Rightarrow> None
                              | Some m'' \<Rightarrow>
                                  Some (acc_loss + item env loss,
                                        s4\<lparr>model := m'',
                                           trace := trace s4 @ [Backward (require_backward_grad_sync s4)]\<rparr>))))))"

text \<open>A \<open>for\<close> loop whose body may raise: the first exception ends it.\<close>

fun for_loop :: "(int \<Rightarrow> 'a \<Rightarrow> 'a option) \<Rightarrow> int list \<Rightarrow> 'a \<Rightarrow> 'a option" where
  "for_loop body [] a = Some a"
| "for_loop body (i # is) a =
     (case body i a of None \<Rightarrow> None | Some a' \<Rightarrow> for_loop body is a')"

definition train_step ::
  "('d, 'b, 'm, 'o, 't, 'f) collaborators \<Rightarrow> ('d, 'm, 't) state \<Rightarrow>
   ('f::{zero,plus} \<times> ('d, 'm, 't) state) option" where
  "train_step env s =
     (let acc_loss = 0;
          requires_grad_sync = (cp_dp_world_size env > 1)
      in for_loop (micro_batch env requires_grad_sync) (py_range (grad_acc s)) (acc_loss, s))"

text \<open>
  What the log of a run says: the values assigned to the flag, the values of the flag
  the backward passes ran under, and the mean cross-entropy losses, each in program order.
\<close>

fun assigned :: "'t event \<Rightarrow> bool list" where
  "assigned (SetGradSync b) = [b]"
| "assigned _ = []"

fun backward_under :: "'t event \<Rightarrow> bool option list" where
  "backward_under (Backward flag) = [flag]"
| "backward_under _ = []"

fun measured :: "'t event \<Rightarrow> 't list" where
  "measured (CrossEntropy ce) = [ce]"
| "measured _ = []"

text \<open>The statements one micro-batch executes, when none of them raises.\<close>

definition micro_batch_events ::
  "bool \<Rightarrow> bool option \<Rightarrow> int \<Rightarrow> int \<Rightarrow> 't \<Rightarrow> 't event list" where
  "micro_batch_events sync flag0 n i ce =
     (let flag = (if sync then Some (i = n - 1) else flag0)
      in [NextBatch] @ (if sync then [SetGradSync (i = n - 1)] else []) @
         [Forward flag, CrossEntropy ce, DivGradAcc n, Backward flag])"

text \<open>The events a call appended to the log it started from.\<close>

definition appended :: "'a list \<Rightarrow> 'a list \<Rightarrow> 'a list" where
  "appended before after = drop (length before) after"

text \<open>
  A run to evaluate: two ranks in the data+context group, a loader that counts its
  batches, a model that counts its backward passes, and a mean loss of \<open>3 * (b + 1)\<close> on
  batch \<open>b\<close>, over the reals.
\<close>

definition example_env :: "(nat, nat, nat, nat, real, real) collaborators" where
  "example_env =
     \<lparr>cp_dp_world_size = 2,
      next_batch = (\<lambda>d. Some (d, Suc d)),
      forward = (\<lambda>m flag b. Some (b, m)),
      cross_entropy = (\<lambda>out b. Some (3 * (real out + 1))),
      tensor_div = (\<lambda>t n. t / real_of_int n),
      backward = (\<lambda>m flag t. Some (Suc m)),
      item = (\<lambda>t. t)\<rparr>"

definition example_state :: "int \<Rightarrow> (nat, nat, real) state" where
  "example_state n =
     \<lparr>loader = 0, grad_acc = n, model = 0, require_backward_grad_sync = None, trace = []\<rparr>"

section \<open>The driver (src/train.py, lines 105-241)\<close>

text \<open>
  The driver is modelled from the two start-up assertions on: what it reads from the
  configuration file and the environment is a record, what it reads from the process
  group manager, the data loader, the model object and \<open>load_checkpoint\<close> is another,
  and every call of a collaborator that the claims are about is an event of the run,
  in program order. A collaborator is taken to return. The driver's own statements that
  raise are branches of the model: the two assertions, the two \<open>%\<close>, and the divisions
  by \<open>step_duration\<close> and by \<open>world_size\<close> while the log line is built (lines 227-228).
  The loss, the throughput and the memory usage that the line prints are left out.
\<close>

datatype error = AssertionError string | ZeroDivisionError

record config =
  seq_length :: int
  max_tokens :: "int option"
  total_train_steps :: int
  use_wandb :: bool
  tp_size :: int
  pp_size :: int
  dp_size :: int
  cp_size :: int
  load_path :: "string option"
  save_frequency :: int
  world_size :: int

record process_group_manager =
  tp_rank :: int
  dp_rank :: int
  cp_rank :: int
  pp_is_last_stage :: bool
  pp_world_size :: int

text \<open>
  \<open>global_batch_size\<close> is the loader's attribute, \<open>has_reset\<close> is
  \<open>hasattr(model, 'reset')\<close> and \<open>checkpoint\<close> is the pair \<open>(step, trained_tokens)\<close> that
  \<open>load_checkpoint\<close> returns. \<open>step_duration k\<close> is the difference of the two clock
  readings (lines 204 and 222) of the iteration that takes the step index to \<open>k\<close>.
\<close>

record runtime =
  pgm :: process_group_manager
  global_batch_size :: int
  has_reset :: bool
  checkpoint :: "int \<times> int"
  step_duration :: "int \<Rightarrow> real"

datatype driver_event =
    LoadCheckpoint string
  | ZeroGrad
  | TrainStepPipelineAFAB
  | TrainStep
  | AllReduceLoss
  | OptimizerStep
  | Reset
  | PrintStep int int
  | WandbLog int
  | SaveCheckpoint int int

record loop_state =
  step :: int
  trained_tokens :: int

datatype outcome = Continue loop_state | Break loop_state | Raise error

text \<open>
  Lines 105-106. Python's \<open>%\<close> raises ZeroDivisionError on a zero divisor, and where it
  is defined it is HOL's \<open>mod\<close> on \<open>int\<close> (the sign of the divisor).
\<close>

definition startup_assertions :: "config \<Rightarrow> error + unit" where
  "startup_assertions cfg =
     (if cp_size cfg = 0 then Inl ZeroDivisionError
      else if seq_length cfg mod cp_size cfg \<noteq> 0
        then Inl (AssertionError ''SEQ_LEN must be divisible by cp_size for Context Parallelism'')
      else if world_size cfg \<noteq> tp_size cfg * pp_size cfg * dp_size cfg * cp_size cfg
        then Inl (AssertionError ''world_size must be equal to tp_size * pp_size * dp_size * cp_size'')
      else Inr ())"

text \<open>Line 116.\<close>

definition is_wandb_rank :: "process_group_manager \<Rightarrow> bool" where
  "is_wandb_rank g = (tp_rank g = 0 \<and> dp_rank g = 0 \<and> cp_rank g = 0 \<and> pp_is_last_stage g)"

text \<open>Line 141.\<close>

definition tokens_per_step :: "config \<Rightarrow> runtime \<Rightarrow> int" where
  "tokens_per_step cfg rt = global_batch_size rt * seq_length cfg"

text \<open>
  The body of the \<open>while\<close> loop, lines 204-241: the events of one iteration and how it
  ends. \<open>PrintStep\<close> carries the step index and the trained tokens of the line printed,
  \<open>SaveCheckpoint\<close> the two that are saved. The arguments of \<open>print\<close> are evaluated
  before it is called: \<open>tokens_per_step / step_duration\<close> and the division of that by
  \<open>world_size\<close> raise ZeroDivisionError on a zero divisor, and then nothing is printed.
\<close>

definition iteration :: "config \<Rightarrow> runtime \<Rightarrow> loop_state \<Rightarrow> driver_event list \<times> outcome" where
  "iteration cfg rt st =
     (let e1 = [ZeroGrad,
                if pp_world_size (pgm rt) > 1 then TrainStepPipelineAFAB else TrainStep,
                AllReduceLoss,
                OptimizerStep];
          st' = st\<lparr>trained_tokens := trained_tokens st + tokens_per_step cfg rt,
                   step := step st + 1\<rparr>;
          e2 = (if has_reset rt then [Reset] else [])
      in if is_wandb_rank (pgm rt) \<and>
            (step_duration rt (step st') = 0 \<or> world_size cfg = 0)
         then (e1 @ e2, Raise ZeroDivisionError)
         else
           let e3 = (if is_wandb_rank (pgm rt)
                     then PrintStep (step st') (trained_tokens st') #
                          (if use_wandb cfg then [WandbLog (trained_tokens st')] else [])
                     else [])
           in if save_frequency cfg = 0 then (e1 @ e2 @ e3, Raise ZeroDivisionError)
              else
                let e4 = (if step st' mod save_frequency cfg = 0
                          then [SaveCheckpoint (step st') (trained_tokens st')] else [])
                in (e1 @ e2 @ e3 @ e4,
                    if step st' \<ge> total_train_steps cfg then Break st' else Continue st'))"

text \<open>Whether the arguments of the log line raise (lines 227-228), at the step index \<open>k\<close>.\<close>

definition log_line_raises :: "config \<Rightarrow> runtime \<Rightarrow> int \<Rightarrow> bool" where
  "log_line_raises cfg rt k =
     (is_wandb_rank (pgm rt) \<and> (step_duration rt k = 0 \<or> world_size cfg = 0))"

text \<open>
  The loop of line 201. It ends: an iteration that does not break has raised the step
  index by one and left it below \<open>total_train_steps\<close>.
\<close>

function training_loop ::
  "config \<Rightarrow> runtime \<Rightarrow> loop_state \<Rightarrow> driver_event list \<times> (error + loop_state)" where
  "training_loop cfg rt st =
     (if max_tokens cfg = None \<or> trained_tokens st < the (max_tokens cfg)
      then (case iteration cfg rt st of
              (evs, Raise e) \<Rightarrow> (evs, Inl e)
            | (evs, Break st') \<Rightarrow> (evs, Inr st')
            | (evs, Continue st') \<Rightarrow>
                (case training_loop cfg rt st' of (evs', r) \<Rightarrow> (evs @ evs', r)))
      else ([], Inr st))"
  by pat_completeness auto
termination
  apply (relation "measure (\<lambda>(cfg, rt, st). nat (total_train_steps cfg - step st))")
   apply simp
  apply (auto simp: iteration_def Let_def split: if_splits)
  done

declare training_loop.simps [simp del]

text \<open>\<open>if LOAD_PATH:\<close> holds of a string that is not empty (and not of \<open>None\<close>).\<close>

definition truthy :: "string option \<Rightarrow> bool" where
  "truthy p = (case p of None \<Rightarrow> False | Some s \<Rightarrow> s \<noteq> [])"

text \<open>Lines 189-191: the counters the loop starts from, and the call that set them.\<close>

definition load :: "config \<Rightarrow> runtime \<Rightarrow> driver_event list \<times> loop_state" where
  "load cfg rt =
     (let st0 = \<lparr>step = 0, trained_tokens = 0\<rparr>
      in if truthy (load_path cfg)
         then ([LoadCheckpoint (the (load_path cfg))],
               \<lparr>step = fst (checkpoint rt), trained_tokens = snd (checkpoint rt)\<rparr>)
         else ([], st0))"

definition main :: "config \<Rightarrow> runtime \<Rightarrow> driver_event list \<times> (error + loop_state)" where
  "main cfg rt =
     (case startup_assertions cfg of
        Inl e \<Rightarrow> ([], Inl e)
      | Inr _ \<Rightarrow>
          (case load cfg rt of (e0, st) \<Rightarrow>
             (case training_loop cfg rt st of (evs, r) \<Rightarrow> (e0 @ evs, r))))"

text \<open>What the log of the driver says.\<close>

fun saved :: "driver_event \<Rightarrow> int list" where
  "saved (SaveCheckpoint k t) = [k]"
| "saved _ = []"

fun loaded :: "driver_event \<Rightarrow> string list" where
  "loaded (LoadCheckpoint p) = [p]"
| "loaded _ = []"

fun reported :: "driver_event \<Rightarrow> bool" where
  "reported (PrintStep k t) = True"
| "reported (WandbLog t) = True"
| "reported _ = False"

fun is_train_step :: "driver_event \<Rightarrow> bool" where
  "is_train_step TrainStep = True"
| "is_train_step TrainStepPipelineAFAB = True"
| "is_train_step _ = False"

text \<open>A configuration and a reporting rank to evaluate the driver on.\<close>

definition example_config :: config where
  "example_config =
     \<lparr>seq_length = 8, max_tokens = None, total_train_steps = 5, use_wandb = True,
      tp_size = 1, pp_size = 1, dp_size = 2, cp_size = 2, load_path = Some ''ckpt/2'',
      save_frequency = 2, world_size = 4\<rparr>"

definition example_runtime :: runtime where
  "example_runtime =
     \<lparr>pgm = \<lparr>tp_rank = 0, dp_rank = 0, cp_rank = 0, pp_is_last_stage = True, pp_world_size = 1\<rparr>,
      global_batch_size = 4, has_reset = True, checkpoint = (2, 64),
      step_duration = (\<lambda>k. 1 / 2)\<rparr>"

section \<open>The loss reduction\<close>

text \<open>
  Modelled from the spec: \<open>all_reduce_loss_across_dp_cp_ranks\<close> is imported from
  \<open>src.distributed.distributed_primtives\<close> and the process group manager from
  \<open>src.distributed.process_group_manager\<close>; neither file is among the sources. The
  spec: the data+context group of a rank is the ranks sharing its tensor and pipeline
  coordinates, and the primitive "performs a sum-reduction of the scalar loss across the
  combined data+context group and divides by that group's size". The coordinates of a
  rank are a parameter, \<open>coord\<close>; the losses are real numbers.
\<close>

definition cp_dp_group :: "nat \<Rightarrow> (nat \<Rightarrow> 'c) \<Rightarrow> nat \<Rightarrow> nat list" where
  "cp_dp_group world coord r = filter (\<lambda>q. coord q = coord r) [0..<world]"

definition all_reduce_loss_across_dp_cp_ranks ::
  "nat \<Rightarrow> (nat \<Rightarrow> 'c) \<Rightarrow> (nat \<Rightarrow> real) \<Rightarrow> nat \<Rightarrow> real" where
  "all_reduce_loss_across_dp_cp_ranks world coord local_loss r =
     sum_list (map local_loss (cp_dp_group world coord r)) /
     real (length (cp_dp_group world coord r))"

text \<open>
  The spec's scenario \<open>world_size=4, tensor=1, pipeline=2, data=2, context=1\<close>: the
  tensor and pipeline coordinates of rank \<open>r\<close> are \<open>(0, r mod 2)\<close>.
\<close>

definition example_coord :: "nat \<Rightarrow> nat \<times> nat" where
  "example_coord r = (0, r mod 2)"

definition example_loss :: "nat \<Rightarrow> real" where
  "example_loss r = real r + 1"

section \<open>Properties of \<open>train_step\<close>\<close>

text \<open>
  One micro-batch that returns has appended its statements to the log, added its scaled
  loss to the accumulator and, under gradient synchronisation, left the flag at
  \<open>i = grad_acc - 1\<close>.
\<close>

lemma micro_batch_Some:
  assumes "micro_batch env sync i (acc, s) = Some (acc', s')"
  shows "\<exists>ce. acc' = acc + item env (tensor_div env ce (grad_acc s)) \<and>
              trace s' = trace s @ micro_batch_events sync (require_backward_grad_sync s) (grad_acc s) i ce \<and>
              grad_acc s' = grad_acc s \<and>
              require_backward_grad_sync s' =
                (if sync then Some (i = grad_acc s - 1) else require_backward_grad_sync s)"
  using assms
  by (auto simp: micro_batch_def micro_batch_events_def Let_def
           split: option.splits prod.splits if_splits)

lemma micro_batch_events_flag:
  "micro_batch_events sync (if sync then f else flag0) n i ce = micro_batch_events sync flag0 n i ce"
  by (simp add: micro_batch_events_def Let_def)

lemma for_loop_micro_batch:
  assumes "for_loop (micro_batch env sync) is (acc, s) = Some (acc', s')"
  shows "\<exists>ces. length ces = length is \<and>
           acc' = foldl (+) acc (map (\<lambda>ce. item env (tensor_div env ce (grad_acc s))) ces) \<and>
           trace s' = trace s @
             concat (map2 (micro_batch_events sync (require_backward_grad_sync s) (grad_acc s)) is ces) \<and>
           grad_acc s' = grad_acc s"
  using assms
proof (induction "is" arbitrary: acc s)
  case Nil
  then show ?case by simp
next
  case (Cons i "is")
  from Cons.prems obtain acc1 s1 where
    b: "micro_batch env sync i (acc, s) = Some (acc1, s1)" and
    r: "for_loop (micro_batch env sync) is (acc1, s1) = Some (acc', s')"
    by (auto split: option.splits)
  from micro_batch_Some[OF b] obtain ce where
    ce: "acc1 = acc + item env (tensor_div env ce (grad_acc s))"
      "trace s1 = trace s @ micro_batch_events sync (require_backward_grad_sync s) (grad_acc s) i ce"
      "grad_acc s1 = grad_acc s"
      "require_backward_grad_sync s1 =
         (if sync then Some (i = grad_acc s - 1) else require_backward_grad_sync s)"
    by blast
  from Cons.IH[OF r] obtain ces where
    ces: "length ces = length is"
      "acc' = foldl (+) acc1 (map (\<lambda>ce. item env (tensor_div env ce (grad_acc s1))) ces)"
      "trace s' = trace s1 @
         concat (map2 (micro_batch_events sync (require_backward_grad_sync s1) (grad_acc s1)) is ces)"
      "grad_acc s' = grad_acc s1"
    by blast
  have ev: "micro_batch_events sync (require_backward_grad_sync s1) (grad_acc s) =
            micro_batch_events sync (require_backward_grad_sync s) (grad_acc s)"
    by (intro ext) (simp add: ce(4) micro_batch_events_def)
  show ?case
    by (rule exI[of _ "ce # ces"]) (simp add: ces ce(1,2,3) ev)
qed

lemma assigned_micro_batch_events:
  "concat (map assigned (micro_batch_events sync flag0 n i ce)) = (if sync then [i = n - 1] else [])"
  by (simp add: micro_batch_events_def Let_def)

lemma backward_under_micro_batch_events:
  "concat (map backward_under (micro_batch_events sync flag0 n i ce)) =
     [if sync then Some (i = n - 1) else flag0]"
  by (simp add: micro_batch_events_def Let_def)

lemma measured_micro_batch_events:
  "concat (map measured (micro_batch_events sync flag0 n i ce)) = [ce]"
  by (simp add: micro_batch_events_def Let_def)

lemma concat_map_concat_map2:
  "length xs = length ys \<Longrightarrow>
   concat (map f (concat (map2 g xs ys))) = concat (map2 (\<lambda>x y. concat (map f (g x y))) xs ys)"
  by (induction xs ys rule: list_induct2) simp_all

lemma concat_map2_fst:
  "length xs = length ys \<Longrightarrow> concat (map2 (\<lambda>x y. [f x]) xs ys) = map f xs"
  by (induction xs ys rule: list_induct2) simp_all

lemma concat_map2_snd:
  "length xs = length ys \<Longrightarrow> concat (map2 (\<lambda>x y. [y]) xs ys) = ys"
  by (induction xs ys rule: list_induct2) simp_all

lemma train_step_Some:
  assumes "train_step env s = Some (l, s')"
  shows "\<exists>ces. length ces = nat (grad_acc s) \<and>
           l = foldl (+) 0 (map (\<lambda>ce. item env (tensor_div env ce (grad_acc s))) ces) \<and>
           appended (trace s) (trace s') =
             concat (map2 (micro_batch_events (cp_dp_world_size env > 1)
                             (require_backward_grad_sync s) (grad_acc s))
                          (py_range (grad_acc s)) ces)"
proof -
  from assms have "for_loop (micro_batch env (cp_dp_world_size env > 1)) (py_range (grad_acc s)) (0, s) = Some (l, s')"
    by (simp add: train_step_def)
  from for_loop_micro_batch[OF this] show ?thesis
    by (auto simp: appended_def py_range_def)
qed

text \<open>
  Over the reals, with \<open>item\<close> the identity and \<open>tensor_div\<close> the division, the sum of
  the scaled losses is the sum of the losses divided by \<open>grad_acc\<close>.
\<close>

lemma foldl_scaled_sum:
  "foldl (+) a (map (\<lambda>ce. ce / c) ces) = a + sum_list ces / (c::real)"
  by (induction ces arbitrary: a) (simp_all add: add_divide_distrib)

lemma train_step_acc_loss_reals:
  fixes env :: "('d, 'b, 'm, 'o, real, real) collaborators"
  assumes "train_step env s = Some (l, s')"
    and "item env = (\<lambda>t. t)" and "tensor_div env = (\<lambda>t n. t / real_of_int n)"
  shows "l = sum_list (concat (map measured (appended (trace s) (trace s')))) /
               real_of_int (grad_acc s)"
proof -
  from train_step_Some[OF assms(1)] obtain ces where
    len: "length ces = nat (grad_acc s)" and
    l: "l = foldl (+) 0 (map (\<lambda>ce. item env (tensor_div env ce (grad_acc s))) ces)" and
    tr: "appended (trace s) (trace s') =
             concat (map2 (micro_batch_events (cp_dp_world_size env > 1)
                             (require_backward_grad_sync s) (grad_acc s))
                          (py_range (grad_acc s)) ces)"
    by auto
  have len': "length (py_range (grad_acc s)) = length ces"
    by (simp add: len py_range_def)
  have "concat (map measured (appended (trace s) (trace s'))) = ces"
    by (simp add: tr concat_map_concat_map2[OF len'] measured_micro_batch_events
                  concat_map2_snd[OF len'])
  then show ?thesis
    using l by (simp add: assms(2,3) foldl_scaled_sum)
qed

lemma py_range_3: "py_range 3 = [0, 1, 2]"
  by (simp add: py_range_def upt_rec)

lemma example_run:
  "train_step example_env (example_state 3) =
     Some (6, \<lparr>loader = 3, grad_acc = 3, model = 3, require_backward_grad_sync = Some True,
               trace = [NextBatch, SetGradSync False, Forward (Some False),
                        CrossEntropy 3, DivGradAcc 3, Backward (Some False),
                        NextBatch, SetGradSync False, Forward (Some False),
                        CrossEntropy 6, DivGradAcc 3, Backward (Some False),
                        NextBatch, SetGradSync True, Forward (Some True),
                        CrossEntropy 9, DivGradAcc 3, Backward (Some True)]\<rparr>)"
  by (simp add: train_step_def py_range_3 micro_batch_def example_env_def example_state_def)

text \<open>
  What one micro-batch that returns has called: the loader, the forward pass under the
  flag it has just assigned (or found, without gradient synchronisation), the loss, and
  the backward pass under the same flag, whose result is the model it leaves.
\<close>

lemma micro_batch_calls:
  assumes "micro_batch env sync i (acc, s) = Some (acc', s')"
  shows "\<exists>batch d' out m' ce.
           next_batch env (loader s) = Some (batch, d') \<and>
           forward env (model s)
             (if sync then Some (i = grad_acc s - 1) else require_backward_grad_sync s) batch =
             Some (out, m') \<and>
           cross_entropy env out batch = Some ce \<and>
           backward env m'
             (if sync then Some (i = grad_acc s - 1) else require_backward_grad_sync s)
             (tensor_div env ce (grad_acc s)) = Some (model s') \<and>
           loader s' = d'"
  using assms
  by (auto simp: micro_batch_def Let_def split: option.splits prod.splits if_splits)

lemma for_loop_append:
  "for_loop body (xs @ ys) a =
     (case for_loop body xs a of None \<Rightarrow> None | Some b \<Rightarrow> for_loop body ys b)"
  by (induction xs arbitrary: a) (simp_all split: option.splits)

lemma py_range_split:
  assumes "i \<in> set (py_range n)"
  shows "\<exists>rest. py_range n = py_range i @ i # rest"
proof -
  from assms obtain k where k: "i = int k" "k < nat n"
    by (auto simp: py_range_def)
  have "[0..<nat n] = [0..<k + (nat n - k)]"
    using k(2) by simp
  also have "\<dots> = [0..<k] @ [k..<k + (nat n - k)]"
    by (rule upt_add_eq_append) simp
  also have "[k..<k + (nat n - k)] = k # [Suc k..<nat n]"
    using k(2) by (simp add: upt_conv_Cons)
  finally have "[0..<nat n] = [0..<k] @ k # [Suc k..<nat n]" .
  then have "py_range n = py_range i @ i # map int [Suc k..<nat n]"
    by (simp add: py_range_def k(1))
  then show ?thesis by blast
qed

lemma for_loop_flag:
  assumes "for_loop (micro_batch env True) is (acc, s) = Some (acc', s')"
  shows "require_backward_grad_sync s' =
           (if is = [] then require_backward_grad_sync s else Some (last is = grad_acc s - 1))"
  using assms
proof (induction "is" arbitrary: acc s)
  case Nil
  then show ?case by simp
next
  case (Cons i "is")
  from Cons.prems obtain acc1 s1 where
    b: "micro_batch env True i (acc, s) = Some (acc1, s1)" and
    r: "for_loop (micro_batch env True) is (acc1, s1) = Some (acc', s')"
    by (auto split: option.splits)
  from micro_batch_Some[OF b] have
    s1: "grad_acc s1 = grad_acc s" "require_backward_grad_sync s1 = Some (i = grad_acc s - 1)"
    by auto
  from Cons.IH[OF r] show ?case by (simp add: s1)
qed

lemma last_py_range: "0 < n \<Longrightarrow> py_range n \<noteq> [] \<and> last (py_range n) = n - 1"
  by (cases "nat n") (simp_all add: py_range_def last_map)

text \<open>
  Claim C1. When the combined context+data world size is greater than 1 and
  \<open>train_step\<close> returns: for every micro-batch index \<open>i\<close> with \<open>0 \<le> i < grad_acc\<close>, the
  loop reaches the micro-batch \<open>i\<close>, which sets the model's
  \<open>require_backward_grad_sync\<close> to the value of \<open>i = grad_acc - 1\<close> (False below the last
  index, True at the last), and the model's forward pass and the backward pass of that
  micro-batch are called under this value of the flag; so every backward pass but the
  last runs with gradient communication suppressed. The flag is True when \<open>train_step\<close>
  returns (and is left as it was when there is no micro-batch). The log agrees: the
  values assigned, and the values the backward passes ran under, are those of
  \<open>i = grad_acc - 1\<close> in the order of the indices.
\<close>

theorem train_step_grad_sync:
  assumes "cp_dp_world_size env > 1" and "train_step env s = Some (l, s')"
  shows "concat (map assigned (appended (trace s) (trace s'))) =
           map (\<lambda>i. i = grad_acc s - 1) (py_range (grad_acc s)) \<and>
         concat (map backward_under (appended (trace s) (trace s'))) =
           map (\<lambda>i. Some (i = grad_acc s - 1)) (py_range (grad_acc s)) \<and>
         require_backward_grad_sync s' =
           (if 0 < grad_acc s then Some True else require_backward_grad_sync s) \<and>
         (\<forall>i\<in>set (py_range (grad_acc s)). \<exists>acc si acc' si'.
            for_loop (micro_batch env True) (py_range i) (0, s) = Some (acc, si) \<and>
            micro_batch env True i (acc, si) = Some (acc', si') \<and>
            require_backward_grad_sync si' = Some (i = grad_acc s - 1) \<and>
            (\<exists>batch d' out m' ce.
               next_batch env (loader si) = Some (batch, d') \<and>
               forward env (model si) (Some (i = grad_acc s - 1)) batch = Some (out, m') \<and>
               cross_entropy env out batch = Some ce \<and>
               backward env m' (Some (i = grad_acc s - 1)) (tensor_div env ce (grad_acc s)) =
                 Some (model si')))"
proof -
  have run: "for_loop (micro_batch env True) (py_range (grad_acc s)) (0, s) = Some (l, s')"
    using assms by (simp add: train_step_def)
  from train_step_Some[OF assms(2)] obtain ces where
    len: "length ces = nat (grad_acc s)" and
    tr: "appended (trace s) (trace s') =
             concat (map2 (micro_batch_events True
                             (require_backward_grad_sync s) (grad_acc s))
                          (py_range (grad_acc s)) ces)"
    using assms(1) by auto
  have len': "length (py_range (grad_acc s)) = length ces"
    by (simp add: len py_range_def)
  note m = concat_map2_fst[OF len']
  have log: "concat (map assigned (appended (trace s) (trace s'))) =
           map (\<lambda>i. i = grad_acc s - 1) (py_range (grad_acc s)) \<and>
         concat (map backward_under (appended (trace s) (trace s'))) =
           map (\<lambda>i. Some (i = grad_acc s - 1)) (py_range (grad_acc s))"
    by (simp add: tr concat_map_concat_map2[OF len'] assigned_micro_batch_events
                  backward_under_micro_batch_events m)
  have final: "require_backward_grad_sync s' =
           (if 0 < grad_acc s then Some True else require_backward_grad_sync s)"
  proof (cases "0 < grad_acc s")
    case True
    with for_loop_flag[OF run] last_py_range[OF True] show ?thesis by simp
  next
    case False
    then have "py_range (grad_acc s) = []" by (simp add: py_range_def)
    with for_loop_flag[OF run] False show ?thesis by simp
  qed
  have each: "\<exists>acc si acc' si'.
            for_loop (micro_batch env True) (py_range i) (0, s) = Some (acc, si) \<and>
            micro_batch env True i (acc, si) = Some (acc', si') \<and>
            require_backward_grad_sync si' = Some (i = grad_acc s - 1) \<and>
            (\<exists>batch d' out m' ce.
               next_batch env (loader si) = Some (batch, d') \<and>
               forward env (model si) (Some (i = grad_acc s - 1)) batch = Some (out, m') \<and>
               cross_entropy env out batch = Some ce \<and>
               backward env m' (Some (i = grad_acc s - 1)) (tensor_div env ce (grad_acc s)) =
                 Some (model si'))"
    if i: "i \<in> set (py_range (grad_acc s))" for i
  proof -
    from py_range_split[OF i] obtain rest where
      sp: "py_range (grad_acc s) = py_range i @ i # rest" by blast
    from run obtain acc si where
      pre: "for_loop (micro_batch env True) (py_range i) (0, s) = Some (acc, si)" and
      post: "for_loop (micro_batch env True) (i # rest) (acc, si) = Some (l, s')"
      by (auto simp: sp for_loop_append split: option.splits)
    from post obtain acc' si' where
      b: "micro_batch env True i (acc, si) = Some (acc', si')"
      by (auto split: option.splits)
    from for_loop_micro_batch[OF pre] have g: "grad_acc si = grad_acc s" by auto
    from micro_batch_Some[OF b] have f: "require_backward_grad_sync si' = Some (i = grad_acc s - 1)"
      by (auto simp: g)
    from micro_batch_calls[OF b] have
      "\<exists>batch d' out m' ce.
               next_batch env (loader si) = Some (batch, d') \<and>
               forward env (model si) (Some (i = grad_acc s - 1)) batch = Some (out, m') \<and>
               cross_entropy env out batch = Some ce \<and>
               backward env m' (Some (i = grad_acc s - 1)) (tensor_div env ce (grad_acc s)) =
                 Some (model si')"
      by (simp add: g) blast
    with pre b f show ?thesis by blast
  qed
  from log final each show ?thesis by blast
qed

theorem train_step_grad_sync_witness:
  "cp_dp_world_size example_env > 1 \<and>
   (\<exists>l s'. train_step example_env (example_state 3) = Some (l, s') \<and>
      concat (map assigned (appended (trace (example_state 3)) (trace s'))) = [False, False, True] \<and>
      concat (map backward_under (appended (trace (example_state 3)) (trace s'))) =
        [Some False, Some False, Some True] \<and>
      require_backward_grad_sync s' = Some True) \<and>
   (\<exists>acc si acc' si'.
      for_loop (micro_batch example_env True) (py_range 2) (0, example_state 3) = Some (acc, si) \<and>
      micro_batch example_env True 2 (acc, si) = Some (acc', si') \<and>
      require_backward_grad_sync si' = Some True \<and>
      (\<exists>batch d' out m' ce.
         next_batch example_env (loader si) = Some (batch, d') \<and>
         forward example_env (model si) (Some True) batch = Some (out, m') \<and>
         cross_entropy example_env out batch = Some ce \<and>
         backward example_env m' (Some True) (tensor_div example_env ce 3) = Some (model si')))"
proof -
  have w: "cp_dp_world_size example_env > 1"
    by (simp add: example_env_def)
  have g: "grad_acc (example_state 3) = 3"
    by (simp add: example_state_def)
  have i: "2 \<in> set (py_range (grad_acc (example_state 3)))"
    by (simp add: g py_range_3)
  note t = train_step_grad_sync[OF w example_run]
  note last = t[THEN conjunct2, THEN conjunct2, THEN conjunct2, THEN bspec, OF i]
  from t last show ?thesis
    by (simp add: w example_run g py_range_3)
qed



text \<open>
  Claim C10. When \<open>data_loader.grad_acc\<close> is 0, \<open>train_step\<close> returns the accumulated
  loss \<open>0.0\<close> and leaves the state as it found it: the loader has not moved (no batch
  was fetched), the model is untouched, the flag has not been assigned, and the log has
  no new statement (no forward pass, no division by \<open>grad_acc\<close>, no backward pass).
\<close>

theorem train_step_zero_grad_acc:
  assumes "grad_acc s = 0"
  shows "train_step env s = Some (0, s)"
  using assms by (simp add: train_step_def py_range_def)

theorem train_step_zero_grad_acc_witness:
  "grad_acc (example_state 0) = 0 \<and>
   train_step example_env (example_state 0) = Some (0, example_state 0) \<and>
   trace (example_state 0) = [] \<and> require_backward_grad_sync (example_state 0) = None"
proof -
  have g: "grad_acc (example_state 0) = 0"
    by (simp add: example_state_def)
  from train_step_zero_grad_acc[OF g, of example_env] show ?thesis
    by (simp add: example_state_def)
qed

section \<open>Properties of the driver\<close>

text \<open>The log and the outcome of one iteration, read off the loop body.\<close>

lemma iteration_events:
  "fst (iteration cfg rt st) =
     [ZeroGrad, if pp_world_size (pgm rt) > 1 then TrainStepPipelineAFAB else TrainStep,
      AllReduceLoss, OptimizerStep] @
     (if has_reset rt then [Reset] else []) @
     (if is_wandb_rank (pgm rt) \<and> \<not> log_line_raises cfg rt (step st + 1)
      then PrintStep (step st + 1) (trained_tokens st + tokens_per_step cfg rt) #
           (if use_wandb cfg then [WandbLog (trained_tokens st + tokens_per_step cfg rt)] else [])
      else []) @
     (if \<not> log_line_raises cfg rt (step st + 1) \<and>
         save_frequency cfg \<noteq> 0 \<and> (step st + 1) mod save_frequency cfg = 0
      then [SaveCheckpoint (step st + 1) (trained_tokens st + tokens_per_step cfg rt)] else [])"
  by (simp add: iteration_def log_line_raises_def Let_def)

lemma iteration_outcome:
  "snd (iteration cfg rt st) =
     (if log_line_raises cfg rt (step st + 1) \<or> save_frequency cfg = 0
      then Raise ZeroDivisionError
      else if total_train_steps cfg \<le> step st + 1
        then Break (st\<lparr>trained_tokens := trained_tokens st + tokens_per_step cfg rt, step := step st + 1\<rparr>)
        else Continue (st\<lparr>trained_tokens := trained_tokens st + tokens_per_step cfg rt, step := step st + 1\<rparr>))"
  by (auto simp: iteration_def log_line_raises_def Let_def)

lemma training_loop_iterations:
  "\<exists>sts. fst (training_loop cfg rt st) = concat (map (\<lambda>s. fst (iteration cfg rt s)) sts)"
proof (induction cfg rt st rule: training_loop.induct)
  case (1 cfg rt st)
  show ?case
  proof (cases "max_tokens cfg = None \<or> trained_tokens st < the (max_tokens cfg)")
    case False
    then have "fst (training_loop cfg rt st) = []"
      by (subst training_loop.simps) auto
    then show ?thesis by (intro exI[of _ "[]"]) simp
  next
    case True
    obtain evs oc where it: "iteration cfg rt st = (evs, oc)" by (cases "iteration cfg rt st")
    show ?thesis
    proof (cases oc)
      case (Continue st')
      from "1.IH"[OF True it[symmetric] Continue] obtain sts where
        sts: "fst (training_loop cfg rt st') = concat (map (\<lambda>s. fst (iteration cfg rt s)) sts)"
        by blast
      have "fst (training_loop cfg rt st) = evs @ fst (training_loop cfg rt st')"
        using True it Continue by (subst training_loop.simps) (simp split: prod.splits)
      then show ?thesis using sts it by (intro exI[of _ "st # sts"]) simp
    next
      case (Break st')
      have "fst (training_loop cfg rt st) = evs"
        using True it Break by (subst training_loop.simps) simp
      then show ?thesis using it by (intro exI[of _ "[st]"]) simp
    next
      case (Raise e)
      have "fst (training_loop cfg rt st) = evs"
        using True it Raise by (subst training_loop.simps) simp
      then show ?thesis using it by (intro exI[of _ "[st]"]) simp
    qed
  qed
qed

lemma loaded_iteration: "concat (map loaded (fst (iteration cfg rt st))) = []"
  by (auto simp: iteration_events)

lemma saved_iteration:
  "concat (map saved (fst (iteration cfg rt st))) =
     (if \<not> log_line_raises cfg rt (step st + 1) \<and>
         save_frequency cfg \<noteq> 0 \<and> (step st + 1) mod save_frequency cfg = 0
      then [step st + 1] else [])"
  by (auto simp: iteration_events)

lemma training_loop_log:
  assumes "training_loop cfg rt st = (evs, r)"
  shows "concat (map loaded evs) = [] \<and>
    (case r of
       Inl e \<Rightarrow> (\<exists>k. step st \<le> k \<and>
         concat (map saved evs) =
           filter (\<lambda>k. save_frequency cfg \<noteq> 0 \<and> k mod save_frequency cfg = 0)
                  [step st + 1..k])
     | Inr st' \<Rightarrow> step st \<le> step st' \<and>
         concat (map saved evs) =
           filter (\<lambda>k. save_frequency cfg \<noteq> 0 \<and> k mod save_frequency cfg = 0)
                  [step st + 1..step st'])"
  using assms
proof (induction cfg rt st arbitrary: evs r rule: training_loop.induct)
  case (1 cfg rt st)
  let ?P = "\<lambda>k. save_frequency cfg \<noteq> 0 \<and> k mod save_frequency cfg = 0"
  show ?case
  proof (cases "max_tokens cfg = None \<or> trained_tokens st < the (max_tokens cfg)")
    case False
    then have "training_loop cfg rt st = ([], Inr st)"
      by (subst training_loop.simps) auto
    with "1.prems" show ?thesis by auto
  next
    case True
    obtain e oc where it: "iteration cfg rt st = (e, oc)" by (cases "iteration cfg rt st")
    have e: "concat (map loaded e) = []"
      "concat (map saved e) =
         (if \<not> log_line_raises cfg rt (step st + 1) \<and>
             save_frequency cfg \<noteq> 0 \<and> (step st + 1) mod save_frequency cfg = 0
          then [step st + 1] else [])"
      using loaded_iteration[of cfg rt st] saved_iteration[of cfg rt st] it by simp_all
    have oc: "oc =
     (if log_line_raises cfg rt (step st + 1) \<or> save_frequency cfg = 0
      then Raise ZeroDivisionError
      else if total_train_steps cfg \<le> step st + 1
        then Break (st\<lparr>trained_tokens := trained_tokens st + tokens_per_step cfg rt, step := step st + 1\<rparr>)
        else Continue (st\<lparr>trained_tokens := trained_tokens st + tokens_per_step cfg rt, step := step st + 1\<rparr>))"
      using iteration_outcome[of cfg rt st] it by simp
    show ?thesis
    proof (cases oc)
      case (Raise x)
      then have f: "log_line_raises cfg rt (step st + 1) \<or> save_frequency cfg = 0"
        using oc by (auto split: if_splits)
      have tl: "training_loop cfg rt st = (e, Inl x)"
        using True it Raise by (subst training_loop.simps) simp
      have "concat (map saved e) = filter ?P [step st + 1..step st]"
        using e(2) f by auto
      then have "\<exists>k. step st \<le> k \<and> concat (map saved e) = filter ?P [step st + 1..k]"
        by (intro exI[of _ "step st"]) simp
      with tl "1.prems" e(1) show ?thesis by auto
    next
      case (Break st')
      then have f: "\<not> log_line_raises cfg rt (step st + 1)" "save_frequency cfg \<noteq> 0"
        "step st' = step st + 1"
        using oc by (auto split: if_splits)
      have "training_loop cfg rt st = (e, Inr st')"
        using True it Break by (subst training_loop.simps) simp
      with "1.prems" e f show ?thesis by auto
    next
      case (Continue st')
      then have f: "\<not> log_line_raises cfg rt (step st + 1)" "save_frequency cfg \<noteq> 0"
        "step st' = step st + 1"
        using oc by (auto split: if_splits)
      obtain evs' r' where rec: "training_loop cfg rt st' = (evs', r')"
        by (cases "training_loop cfg rt st'")
      have tl: "training_loop cfg rt st = (e @ evs', r')"
        using True it Continue rec by (subst training_loop.simps) simp
      note IH = "1.IH"[OF True it[symmetric] Continue rec]
      have ld: "concat (map loaded evs') = []" using IH by simp
      have cons: "concat (map saved (e @ evs')) = filter ?P [step st + 1..k]"
        if le: "step st' \<le> k" and sv: "concat (map saved evs') = filter ?P [step st' + 1..k]"
        for k
      proof -
        have "[step st + 1..k] = (step st + 1) # [step st' + 1..k]"
          using le f(3) by (simp add: upto_rec1)
        then show ?thesis using e(2) sv f by simp
      qed
      show ?thesis
      proof (cases r')
        case (Inl x)
        with IH obtain k where k: "step st' \<le> k"
          "concat (map saved evs') = filter ?P [step st' + 1..k]"
          by auto
        from cons[OF k] k(1) f(3) have
          "\<exists>k. step st \<le> k \<and> concat (map saved (e @ evs')) = filter ?P [step st + 1..k]"
          by (intro exI[of _ k]) simp
        with tl "1.prems" Inl e(1) ld show ?thesis by auto
      next
        case (Inr st'')
        with IH have k: "step st' \<le> step st''"
          "concat (map saved evs') = filter ?P [step st' + 1..step st'']"
          by simp_all
        from cons[OF k] k(1) f(3) tl "1.prems" Inr e(1) ld show ?thesis by auto
      qed
    qed
  qed
qed

lemma positive_multiple:
  "0 < k \<Longrightarrow> (f \<noteq> 0 \<and> k mod f = 0) = (0 < k \<and> f dvd k)" for k f :: int
  by (cases "f = 0") (auto simp: dvd_eq_mod_eq_0)

lemma example_startup: "startup_assertions example_config = Inr ()"
  by (simp add: startup_assertions_def example_config_def)

lemma example_iteration:
  "fst (iteration example_config example_runtime \<lparr>step = 2, trained_tokens = 64\<rparr>) =
     [ZeroGrad, TrainStep, AllReduceLoss, OptimizerStep, Reset, PrintStep 3 96, WandbLog 96]"
  by (simp add: iteration_def is_wandb_rank_def tokens_per_step_def example_config_def
                example_runtime_def)

lemma example_main:
  "main example_config example_runtime =
     ([LoadCheckpoint ''ckpt/2'',
       ZeroGrad, TrainStep, AllReduceLoss, OptimizerStep, Reset, PrintStep 3 96, WandbLog 96,
       ZeroGrad, TrainStep, AllReduceLoss, OptimizerStep, Reset, PrintStep 4 128, WandbLog 128,
       SaveCheckpoint 4 128,
       ZeroGrad, TrainStep, AllReduceLoss, OptimizerStep, Reset, PrintStep 5 160, WandbLog 160],
      Inr \<lparr>step = 5, trained_tokens = 160\<rparr>)"
proof -
  have l: "load example_config example_runtime =
             ([LoadCheckpoint ''ckpt/2''], \<lparr>step = 2, trained_tokens = 64\<rparr>)"
    by (simp add: load_def truthy_def example_config_def example_runtime_def)
  have t: "training_loop example_config example_runtime \<lparr>step = 2, trained_tokens = 64\<rparr> =
     ([ZeroGrad, TrainStep, AllReduceLoss, OptimizerStep, Reset, PrintStep 3 96, WandbLog 96,
       ZeroGrad, TrainStep, AllReduceLoss, OptimizerStep, Reset, PrintStep 4 128, WandbLog 128,
       SaveCheckpoint 4 128,
       ZeroGrad, TrainStep, AllReduceLoss, OptimizerStep, Reset, PrintStep 5 160, WandbLog 160],
      Inr \<lparr>step = 5, trained_tokens = 160\<rparr>)"
  proof -
    have m: "max_tokens example_config = None" by (simp add: example_config_def)
    have i1: "iteration example_config example_runtime \<lparr>step = 2, trained_tokens = 64\<rparr> =
       ([ZeroGrad, TrainStep, AllReduceLoss, OptimizerStep, Reset, PrintStep 3 96, WandbLog 96],
        Continue \<lparr>step = 3, trained_tokens = 96\<rparr>)"
      and i2: "iteration example_config example_runtime \<lparr>step = 3, trained_tokens = 96\<rparr> =
       ([ZeroGrad, TrainStep, AllReduceLoss, OptimizerStep, Reset, PrintStep 4 128, WandbLog 128,
         SaveCheckpoint 4 128],
        Continue \<lparr>step = 4, trained_tokens = 128\<rparr>)"
      and i3: "iteration example_config example_runtime \<lparr>step = 4, trained_tokens = 128\<rparr> =
       ([ZeroGrad, TrainStep, AllReduceLoss, OptimizerStep, Reset, PrintStep 5 160, WandbLog 160],
        Break \<lparr>step = 5, trained_tokens = 160\<rparr>)"
      by (simp_all add: iteration_def is_wandb_rank_def tokens_per_step_def example_config_def
                        example_runtime_def)
    have t3: "training_loop example_config example_runtime \<lparr>step = 4, trained_tokens = 128\<rparr> =
       ([ZeroGrad, TrainStep, AllReduceLoss, OptimizerStep, Reset, PrintStep 5 160, WandbLog 160],
        Inr \<lparr>step = 5, trained_tokens = 160\<rparr>)"
      by (subst training_loop.simps) (simp add: m i3)
    have t2: "training_loop example_config example_runtime \<lparr>step = 3, trained_tokens = 96\<rparr> =
       ([ZeroGrad, TrainStep, AllReduceLoss, OptimizerStep, Reset, PrintStep 4 128, WandbLog 128,
         SaveCheckpoint 4 128,
         ZeroGrad, TrainStep, AllReduceLoss, OptimizerStep, Reset, PrintStep 5 160, WandbLog 160],
        Inr \<lparr>step = 5, trained_tokens = 160\<rparr>)"
      by (subst training_loop.simps) (simp add: m i2 t3)
    show ?thesis
      by (subst training_loop.simps) (simp add: m i1 t2)
  qed
  show ?thesis
    by (simp add: main_def example_startup l t)
qed

text \<open>
  Claim C2. The two assertions of lines 105-106 pass exactly when the sequence length
  is divisible by the context-parallel size (the remainder \<open>SEQ_LEN % CP_SIZE\<close> is
  defined and is zero) and the world size is the product of the four sizes. When both
  hold, no assertion fails and the driver goes on to the checkpoint and the loop; when
  one does not, the driver ends with an error before any event of the run: no
  checkpoint is loaded and no training step is taken.
\<close>

theorem startup_preconditions:
  "(if cp_size cfg \<noteq> 0 \<and> seq_length cfg mod cp_size cfg = 0 \<and>
       world_size cfg = tp_size cfg * pp_size cfg * dp_size cfg * cp_size cfg
    then startup_assertions cfg = Inr () \<and>
         main cfg rt =
           (case load cfg rt of (e0, st) \<Rightarrow>
              (case training_loop cfg rt st of (evs, r) \<Rightarrow> (e0 @ evs, r)))
    else \<exists>e. startup_assertions cfg = Inl e \<and> main cfg rt = ([], Inl e))"
  by (simp add: startup_assertions_def main_def)

theorem startup_preconditions_witness:
  "startup_assertions example_config = Inr () \<and>
   fst (main example_config example_runtime) \<noteq> [] \<and>
   startup_assertions (example_config\<lparr>cp_size := 3\<rparr>) =
     Inl (AssertionError ''SEQ_LEN must be divisible by cp_size for Context Parallelism'') \<and>
   main (example_config\<lparr>cp_size := 3\<rparr>) example_runtime =
     ([], Inl (AssertionError ''SEQ_LEN must be divisible by cp_size for Context Parallelism'')) \<and>
   main (example_config\<lparr>world_size := 8\<rparr>) example_runtime =
     ([], Inl (AssertionError ''world_size must be equal to tp_size * pp_size * dp_size * cp_size'')) \<and>
   main (example_config\<lparr>cp_size := 0\<rparr>) example_runtime = ([], Inl ZeroDivisionError)"
proof -
  have a: "startup_assertions (example_config\<lparr>cp_size := 3\<rparr>) =
     Inl (AssertionError ''SEQ_LEN must be divisible by cp_size for Context Parallelism'')"
    and b: "startup_assertions (example_config\<lparr>world_size := 8\<rparr>) =
     Inl (AssertionError ''world_size must be equal to tp_size * pp_size * dp_size * cp_size'')"
    and c: "startup_assertions (example_config\<lparr>cp_size := 0\<rparr>) = Inl ZeroDivisionError"
    by (simp_all add: startup_assertions_def example_config_def)
  from startup_preconditions[of example_config example_runtime]
       startup_preconditions[of "example_config\<lparr>cp_size := 3\<rparr>" example_runtime]
       startup_preconditions[of "example_config\<lparr>world_size := 8\<rparr>" example_runtime]
       startup_preconditions[of "example_config\<lparr>cp_size := 0\<rparr>" example_runtime]
  show ?thesis
    by (simp add: a b c example_startup example_main split: if_splits)
qed

text \<open>
  The order of the calls. Every iteration of the training loop starts with
  \<open>optimizer.zero_grad()\<close>, then the training step (pipelined or not) is called, then
  the loss reduction across the data+context group, then the optimizer step; none of
  the three is called again in the rest of the iteration, and the log of the whole loop
  is the logs of its iterations, one after the other. This is the order in which the
  driver issues the calls and no more: whether a gradient reduction that the training
  step issued is still in flight when the loss reduction is issued is decided inside the
  model wrapper, of which the driver sees nothing.
\<close>

lemma iteration_call_order:
  "(\<exists>ts rest. fst (iteration cfg rt st) = [ZeroGrad, ts, AllReduceLoss, OptimizerStep] @ rest \<and>
      is_train_step ts \<and> \<not> list_ex is_train_step rest \<and>
      AllReduceLoss \<notin> set rest \<and> OptimizerStep \<notin> set rest) \<and>
   (\<exists>sts. fst (training_loop cfg rt st) = concat (map (\<lambda>s. fst (iteration cfg rt s)) sts))"
proof
  show "\<exists>ts rest. fst (iteration cfg rt st) = [ZeroGrad, ts, AllReduceLoss, OptimizerStep] @ rest \<and>
      is_train_step ts \<and> \<not> list_ex is_train_step rest \<and>
      AllReduceLoss \<notin> set rest \<and> OptimizerStep \<notin> set rest"
    by (simp add: iteration_events)
  show "\<exists>sts. fst (training_loop cfg rt st) = concat (map (\<lambda>s. fst (iteration cfg rt s)) sts)"
    by (rule training_loop_iterations)
qed

text \<open>
  The reports of one iteration on any input: a reporting rank whose log line raises
  while it is built emits nothing.
\<close>

lemma iteration_reports:
  "filter reported (fst (iteration cfg rt st)) =
     (if is_wandb_rank (pgm rt) \<and> \<not> log_line_raises cfg rt (step st + 1)
      then PrintStep (step st + 1) (trained_tokens st + tokens_per_step cfg rt) #
           (if use_wandb cfg then [WandbLog (trained_tokens st + tokens_per_step cfg rt)] else [])
      else [])"
  by (simp add: iteration_events)

text \<open>
  Claim C7. In an iteration of a run whose world size is not 0 and whose clock has
  advanced between the two readings of the step (so that the two divisions of lines
  227-228 are defined), the per-step line and the metrics upload are the only reports,
  and a rank emits them exactly when its tensor, data and context coordinates are 0 and
  it is the last pipeline stage: it then prints one line, with the step index after the
  increment and the cumulative trained tokens, and uploads the metrics when \<open>use_wandb\<close>
  is set; every other rank emits neither.
\<close>

theorem iteration_report:
  assumes "world_size cfg \<noteq> 0" and "step_duration rt (step st + 1) \<noteq> 0"
  shows "filter reported (fst (iteration cfg rt st)) =
     (if tp_rank (pgm rt) = 0 \<and> dp_rank (pgm rt) = 0 \<and> cp_rank (pgm rt) = 0 \<and>
         pp_is_last_stage (pgm rt)
      then PrintStep (step st + 1) (trained_tokens st + tokens_per_step cfg rt) #
           (if use_wandb cfg then [WandbLog (trained_tokens st + tokens_per_step cfg rt)] else [])
      else [])"
  using assms by (simp add: iteration_reports log_line_raises_def is_wandb_rank_def)

theorem iteration_report_witness:
  "world_size example_config \<noteq> 0 \<and>
   step_duration example_runtime (step \<lparr>step = 2, trained_tokens = 64\<rparr> + 1) \<noteq> 0 \<and>
   filter reported (fst (iteration example_config example_runtime \<lparr>step = 2, trained_tokens = 64\<rparr>)) =
     [PrintStep 3 96, WandbLog 96] \<and>
   filter reported
     (fst (iteration example_config
        (example_runtime\<lparr>pgm := (pgm example_runtime)\<lparr>dp_rank := 1\<rparr>\<rparr>)
        \<lparr>step = 2, trained_tokens = 64\<rparr>)) = []"
proof -
  have w: "world_size example_config \<noteq> 0"
    by (simp add: example_config_def)
  have d: "step_duration example_runtime (step \<lparr>step = 2, trained_tokens = 64\<rparr> + 1) \<noteq> 0"
    "step_duration (example_runtime\<lparr>pgm := (pgm example_runtime)\<lparr>dp_rank := 1\<rparr>\<rparr>)
       (step \<lparr>step = 2, trained_tokens = 64\<rparr> + 1) \<noteq> 0"
    by (simp_all add: example_runtime_def)
  from iteration_report[OF w d(1)] iteration_report[OF w d(2)] show ?thesis
    using w d(1) by (simp add: example_config_def example_runtime_def tokens_per_step_def)
qed

text \<open>
  Claim C9. In every iteration, when the model object has a \<open>reset\<close> operation the
  driver calls it exactly once, right after the optimizer step; when it has none,
  nothing is called, and the iteration is the one with the operation, less the call:
  the same events and the same outcome.
\<close>

theorem iteration_reset:
  "(if has_reset rt
    then \<exists>pre post. fst (iteration cfg rt st) = pre @ [OptimizerStep, Reset] @ post \<and>
           Reset \<notin> set pre \<and> Reset \<notin> set post
    else Reset \<notin> set (fst (iteration cfg rt st))) \<and>
   iteration cfg (rt\<lparr>has_reset := False\<rparr>) st =
     (filter (\<lambda>e. e \<noteq> Reset) (fst (iteration cfg rt st)), snd (iteration cfg rt st))"
proof
  show "if has_reset rt
    then \<exists>pre post. fst (iteration cfg rt st) = pre @ [OptimizerStep, Reset] @ post \<and>
           Reset \<notin> set pre \<and> Reset \<notin> set post
    else Reset \<notin> set (fst (iteration cfg rt st))"
  proof (cases "has_reset rt")
    case True
    let ?ts = "if pp_world_size (pgm rt) > 1 then TrainStepPipelineAFAB else TrainStep"
    let ?post = "drop 5 (fst (iteration cfg rt st))"
    have "fst (iteration cfg rt st) = [ZeroGrad, ?ts, AllReduceLoss] @ [OptimizerStep, Reset] @ ?post \<and>
          Reset \<notin> set [ZeroGrad, ?ts, AllReduceLoss] \<and> Reset \<notin> set ?post"
      using True by (simp add: iteration_events)
    then have "\<exists>pre post. fst (iteration cfg rt st) = pre @ [OptimizerStep, Reset] @ post \<and>
           Reset \<notin> set pre \<and> Reset \<notin> set post"
      by (intro exI[of _ "[ZeroGrad, ?ts, AllReduceLoss]"] exI[of _ ?post])
    then show ?thesis using True by simp
  next
    case False
    then show ?thesis by (simp add: iteration_events)
  qed
  show "iteration cfg (rt\<lparr>has_reset := False\<rparr>) st =
     (filter (\<lambda>e. e \<noteq> Reset) (fst (iteration cfg rt st)), snd (iteration cfg rt st))"
    by (auto simp: prod_eq_iff iteration_events iteration_outcome tokens_per_step_def
                   log_line_raises_def)
qed

theorem iteration_reset_witness:
  "has_reset example_runtime \<and>
   fst (iteration example_config example_runtime \<lparr>step = 2, trained_tokens = 64\<rparr>) =
     [ZeroGrad, TrainStep, AllReduceLoss] @ [OptimizerStep, Reset] @ [PrintStep 3 96, WandbLog 96] \<and>
   fst (iteration example_config (example_runtime\<lparr>has_reset := False\<rparr>)
          \<lparr>step = 2, trained_tokens = 64\<rparr>) =
     [ZeroGrad, TrainStep, AllReduceLoss, OptimizerStep, PrintStep 3 96, WandbLog 96]"
  using iteration_reset[of example_runtime example_config "\<lparr>step = 2, trained_tokens = 64\<rparr>"]
  by (simp add: example_iteration) (simp add: example_runtime_def)

text \<open>
  Claim C8. In a run that passes the start-up assertions and starts from a step counter
  that is not negative: \<open>load_checkpoint\<close> is called exactly once when a load path is
  configured and not at all otherwise; the call is the first event of the run and the
  loop starts from the step counter and the trained tokens it returned (from 0 and 0
  without a load path). When the loop ends, \<open>save_checkpoint\<close> has been called exactly
  for those of the steps taken whose index, after the increment, is a positive multiple
  of \<open>save_frequency\<close>, once each and in order. When an iteration raises instead, it
  has saved nothing, and the same holds of the steps taken before it: the saved steps
  are the positive multiples of \<open>save_frequency\<close> up to some step \<open>k\<close>.
\<close>

theorem main_checkpoints:
  assumes "startup_assertions cfg = Inr ()" and "main cfg rt = (evs, r)"
    and "0 \<le> step (snd (load cfg rt))"
  shows "concat (map loaded evs) = (if truthy (load_path cfg) then [the (load_path cfg)] else []) \<and>
    load cfg rt =
      (if truthy (load_path cfg)
       then ([LoadCheckpoint (the (load_path cfg))],
             \<lparr>step = fst (checkpoint rt), trained_tokens = snd (checkpoint rt)\<rparr>)
       else ([], \<lparr>step = 0, trained_tokens = 0\<rparr>)) \<and>
    (\<exists>evs'. evs = fst (load cfg rt) @ evs' \<and>
       training_loop cfg rt (snd (load cfg rt)) = (evs', r) \<and> concat (map loaded evs') = []) \<and>
    (case r of
       Inl e \<Rightarrow> (\<exists>k. step (snd (load cfg rt)) \<le> k \<and>
         concat (map saved evs) =
           filter (\<lambda>k. 0 < k \<and> save_frequency cfg dvd k) [step (snd (load cfg rt)) + 1..k])
     | Inr st' \<Rightarrow>
         concat (map saved evs) =
           filter (\<lambda>k. 0 < k \<and> save_frequency cfg dvd k) [step (snd (load cfg rt)) + 1..step st'])"
proof -
  obtain e0 st0 where l: "load cfg rt = (e0, st0)" by (cases "load cfg rt")
  obtain evs' where tl: "training_loop cfg rt st0 = (evs', r)" and evs: "evs = e0 @ evs'"
    using assms(1,2) l by (auto simp: main_def split: prod.splits)
  have ld: "load cfg rt =
      (if truthy (load_path cfg)
       then ([LoadCheckpoint (the (load_path cfg))],
             \<lparr>step = fst (checkpoint rt), trained_tokens = snd (checkpoint rt)\<rparr>)
       else ([], \<lparr>step = 0, trained_tokens = 0\<rparr>))"
    by (simp add: load_def)
  have e0: "concat (map loaded e0) = (if truthy (load_path cfg) then [the (load_path cfg)] else [])"
    "concat (map saved e0) = []"
    using l ld by (auto split: if_splits)
  note log = training_loop_log[OF tl]
  have pos: "filter (\<lambda>k. save_frequency cfg \<noteq> 0 \<and> k mod save_frequency cfg = 0) [step st0 + 1..j] =
             filter (\<lambda>k. 0 < k \<and> save_frequency cfg dvd k) [step st0 + 1..j]" for j
    using assms(3) l by (intro filter_cong refl positive_multiple) simp
  have 1: "concat (map loaded evs) = (if truthy (load_path cfg) then [the (load_path cfg)] else [])"
    using evs e0 log by simp
  have 3: "\<exists>evs'. evs = fst (load cfg rt) @ evs' \<and>
       training_loop cfg rt (snd (load cfg rt)) = (evs', r) \<and> concat (map loaded evs') = []"
    using evs tl l log by auto
  have 4: "case r of
       Inl e \<Rightarrow> (\<exists>k. step (snd (load cfg rt)) \<le> k \<and>
         concat (map saved evs) =
           filter (\<lambda>k. 0 < k \<and> save_frequency cfg dvd k) [step (snd (load cfg rt)) + 1..k])
     | Inr st' \<Rightarrow>
         concat (map saved evs) =
           filter (\<lambda>k. 0 < k \<and> save_frequency cfg dvd k) [step (snd (load cfg rt)) + 1..step st']"
    using log evs e0(2) l pos by (cases r) auto
  from 1 ld 3 4 show ?thesis by blast
qed

theorem main_checkpoints_witness:
  "startup_assertions example_config = Inr () \<and>
   0 \<le> step (snd (load example_config example_runtime)) \<and>
   (\<exists>evs st'. main example_config example_runtime = (evs, Inr st') \<and> step st' = 5 \<and>
      concat (map loaded evs) = [''ckpt/2''] \<and>
      concat (map saved evs) = [4] \<and>
      concat (map saved evs) =
        filter (\<lambda>k. 0 < k \<and> save_frequency example_config dvd k) [2 + 1..5])"
proof -
  have l: "load example_config example_runtime =
             ([LoadCheckpoint ''ckpt/2''], \<lparr>step = 2, trained_tokens = 64\<rparr>)"
    by (simp add: load_def truthy_def example_config_def example_runtime_def)
  have s: "0 \<le> step (snd (load example_config example_runtime))"
    by (simp add: l)
  have f: "save_frequency example_config = 2" "truthy (load_path example_config)"
    "the (load_path example_config) = ''ckpt/2''"
    by (simp_all add: truthy_def example_config_def)
  from main_checkpoints[OF example_startup example_main s] show ?thesis
    by (simp add: example_startup example_main l f)
qed

section \<open>Properties of the loss reduction\<close>

lemma group_member:
  "q \<in> set (cp_dp_group world coord r) \<Longrightarrow> cp_dp_group world coord q = cp_dp_group world coord r"
  by (simp add: cp_dp_group_def)

text \<open>
  Claim C5. The rank \<open>r\<close> is in its own data+context group, every rank \<open>q\<close> of the
  group holds after the reduction the value that \<open>r\<close> holds, and that value is the sum
  of the local losses of the group's ranks divided by the size of the group, whatever
  the size is.
\<close>

theorem all_reduce_loss_identical:
  assumes "r < world" and "q \<in> set (cp_dp_group world coord r)"
  shows "r \<in> set (cp_dp_group world coord r) \<and>
     all_reduce_loss_across_dp_cp_ranks world coord local_loss q =
       all_reduce_loss_across_dp_cp_ranks world coord local_loss r \<and>
     all_reduce_loss_across_dp_cp_ranks world coord local_loss r =
       (\<Sum>p\<leftarrow>cp_dp_group world coord r. local_loss p) / real (length (cp_dp_group world coord r))"
  using assms group_member[OF assms(2)]
  by (simp add: all_reduce_loss_across_dp_cp_ranks_def) (simp add: cp_dp_group_def)

theorem all_reduce_loss_identical_witness:
  "(0::nat) < 4 \<and> 2 \<in> set (cp_dp_group 4 example_coord 0) \<and>
   cp_dp_group 4 example_coord 0 = [0, 2] \<and>
   all_reduce_loss_across_dp_cp_ranks 4 example_coord example_loss 2 = 2 \<and>
   all_reduce_loss_across_dp_cp_ranks 4 example_coord example_loss 0 = 2"
proof -
  have g: "cp_dp_group 4 example_coord 0 = [0, 2]"
    by (simp add: cp_dp_group_def example_coord_def upt_rec)
  have m: "2 \<in> set (cp_dp_group 4 example_coord 0)"
    by (simp add: g)
  from all_reduce_loss_identical[OF _ m, of example_loss] show ?thesis
    by (simp add: g example_loss_def)
qed

end
